theory Spec2Isabelle
  imports Complex_Main "HOL-Library.Word"
begin

section \<open>Strings\<close>

text \<open>
  A JavaScript string is modelled as a \<open>string\<close>; one \<open>char\<close> stands for one UTF-16
  code unit. The type \<open>char\<close> has 256 values, so the strings of the model are those of
  the Latin-1 range, and \<open>length\<close>, \<open>take\<close> and \<open>@\<close> are \<open>length\<close>,
  \<open>substring(0, n)\<close> and \<open>+\<close> on code units. \<open>String.prototype.trim\<close> removes white
  space and line terminators from both ends; in that range these are the code units 9
  to 13, 32 and 160.
\<close>

definition isWhiteSpace :: "char \<Rightarrow> bool" where
  "isWhiteSpace c = ((of_char c :: nat) \<in> set [9, 10, 11, 12, 13, 32, 160])"

definition trim :: "string \<Rightarrow> string" where
  "trim s = rev (dropWhile isWhiteSpace (rev (dropWhile isWhiteSpace s)))"

section \<open>SignboardReader.tsx\<close>

subsection \<open>Component state\<close>

datatype language = eng | hin | tel

record SignboardReaderState =
  isActive :: bool
  isProcessing :: bool
  recognizedText :: string
  currentLanguage :: language
  status :: string
  error :: "string option"

definition initialState :: SignboardReaderState where
  "initialState =
     \<lparr>isActive = False, isProcessing = False, recognizedText = '''',
      currentLanguage = eng, status = ''Ready to start. Clap to activate!'',
      error = None\<rparr>"

subsection \<open>The environment of the component\<close>

text \<open>
  \<open>processImage\<close> is created by \<open>useCallback\<close> and reads the \<open>state\<close> constant of the
  render that created it. A pending timer therefore carries the state snapshot its
  callback closes over: \<open>AutoStart c\<close> is \<open>setTimeout(processImage, 1000)\<close> of the
  auto-start effect, \<open>Rescan c\<close> is the arrow function
  \<open>() => { if (state.isActive) processImage() }\<close> of lines 118 and 133.
\<close>

datatype callback = AutoStart SignboardReaderState | Rescan SignboardReaderState

record timer =
  tid :: nat
  delay :: nat
  callback :: callback

text \<open>
  An invocation of the async function \<open>processImage\<close> that is suspended at an
  \<open>await\<close> when its task ends. \<open>captureImage\<close> is an async function without an
  \<open>await\<close> of its own, so its promise is settled when it returns and the invocation
  goes on within the same task: a cycle in phase \<open>Capturing\<close> has its frame and waits
  for the dynamic import of the recogniser; a cycle in phase \<open>Recognizing\<close> waits for
  \<open>createWorker\<close>, \<open>recognize\<close> and \<open>terminate\<close>.
\<close>

datatype phase = Capturing | Recognizing

record cycle =
  cid :: nat
  closure :: SignboardReaderState
  phase :: phase

record utterance =
  utterText :: string
  utterLang :: string
  utterRate :: rat
  utterVolume :: rat
  utterVoice :: "string option"

text \<open>
  \<open>st\<close> is the React state, \<open>memo\<close> the snapshot read by the memoised
  \<open>processImage\<close> of the latest render, \<open>cameraRef\<close> is \<open>None\<close> while
  \<open>cameraRef.current\<close> is null and otherwise holds what \<open>captureImage\<close> resolves with
  at present (\<open>None\<close> for \<open>null\<close>), \<open>effectTimer\<close> is the timer that the cleanup of the
  auto-start effect will clear, \<open>timers\<close> are the outstanding timeouts,
  \<open>cycles\<close> the suspended invocations of \<open>processImage\<close>, \<open>speakCalls\<close> the calls of
  \<open>speakStatus\<close> and \<open>spoken\<close> the utterances handed to \<open>speechSynthesis.speak\<close>.
  Timer identifiers are positive, as in a browser. \<open>initialWorld supported\<close> is the
  component when it is mounted, in a browser with or without \<open>speechSynthesis\<close>.
\<close>

record world =
  st :: SignboardReaderState
  memo :: SignboardReaderState
  cameraRef :: "string option option"
  processingTimeoutRef :: "nat option"
  effectTimer :: "nat option"
  timers :: "timer list"
  nextTimer :: nat
  cycles :: "cycle list"
  nextCycle :: nat
  speechSupported :: bool
  speakCalls :: "(string \<times> string) list"
  spoken :: "utterance list"

definition initialWorld :: "bool \<Rightarrow> world" where
  "initialWorld supported =
     \<lparr>st = initialState, memo = initialState, cameraRef = None,
      processingTimeoutRef = None, effectTimer = None, timers = [], nextTimer = 1,
      cycles = [], nextCycle = 0, speechSupported = supported, speakCalls = [],
      spoken = []\<rparr>"

definition setState :: "(SignboardReaderState \<Rightarrow> SignboardReaderState) \<Rightarrow> world \<Rightarrow> world" where
  "setState f w = w\<lparr>st := f (st w)\<rparr>"

definition updateStatus :: "string \<Rightarrow> world \<Rightarrow> world" where
  "updateStatus s w = setState (\<lambda>prev. prev\<lparr>status := s\<rparr>) w"

definition speakStatus :: "string \<Rightarrow> string \<Rightarrow> world \<Rightarrow> world" where
  "speakStatus t l w =
     (let w1 = w\<lparr>speakCalls := speakCalls w @ [(t, l)]\<rparr>
      in if speechSupported w1
         then w1\<lparr>spoken := spoken w1 @
                 [\<lparr>utterText = t, utterLang = l, utterRate = 9 / 10, utterVolume = 8 / 10,
                   utterVoice = None\<rparr>]\<rparr>
         else w1)"

definition setTimeout :: "callback \<Rightarrow> nat \<Rightarrow> world \<Rightarrow> nat \<times> world" where
  "setTimeout cb ms w =
     (nextTimer w,
      w\<lparr>timers := timers w @ [\<lparr>tid = nextTimer w, delay = ms, callback = cb\<rparr>],
        nextTimer := Suc (nextTimer w)\<rparr>)"

definition clearTimeout :: "nat \<Rightarrow> world \<Rightarrow> world" where
  "clearTimeout i w = w\<lparr>timers := filter (\<lambda>t. tid t \<noteq> i) (timers w)\<rparr>"

subsection \<open>handleClapDetected\<close>

definition handleClapDetected :: "world \<Rightarrow> world" where
  "handleClapDetected w =
     (let prev = st w; newIsActive = (\<not> isActive prev)
      in if newIsActive then
           (speakStatus ''SignBoard Reader activated. Point camera at text.'' ''en-US'' w)
             \<lparr>st := prev\<lparr>isActive := True,
                         status := ''Camera activated! Point at text to read.'',
                         error := None\<rparr>\<rparr>
         else
           (let w1 = speakStatus ''SignBoard Reader deactivated.'' ''en-US'' w;
                w2 = (case processingTimeoutRef w1 of
                        Some i \<Rightarrow> clearTimeout i w1
                      | None \<Rightarrow> w1)
            in w2\<lparr>st := prev\<lparr>isActive := False, isProcessing := False,
                              status := ''Deactivated. Clap to activate again.'',
                              recognizedText := ''''\<rparr>\<rparr>))"

subsection \<open>processImage\<close>

text \<open>
  A rejected promise or a \<open>throw\<close>: either an \<open>Error\<close> with its message or any other
  thrown value.
\<close>

datatype failure = ErrorInstance string | OtherValue

definition failureMessage :: "failure \<Rightarrow> string" where
  "failureMessage f =
     (case f of ErrorInstance m \<Rightarrow> m | OtherValue \<Rightarrow> ''Unknown error occurred'')"

text \<open>The \<open>catch\<close> block, lines 139 to 148.\<close>

definition processImage_catch :: "failure \<Rightarrow> world \<Rightarrow> world" where
  "processImage_catch f w =
     speakStatus ''Error during text recognition. Please try again.'' ''en-US''
       (setState (\<lambda>prev. prev\<lparr>error := Some (failureMessage f),
                               status := ''Error during text recognition. Please try again.'',
                               isProcessing := False\<rparr>) w)"

text \<open>
  Lines 76 to 88: what a call of \<open>processImage\<close> does within its task, run by the
  callback that closes over the snapshot \<open>c\<close>. The guard reads \<open>c\<close>, not the current
  state. The frame is taken at once; a missing frame (\<open>null\<close>, or the empty string,
  which is falsy too) is thrown and caught in the same task, before any render.
  Otherwise the invocation is suspended at the dynamic import.
\<close>

definition processImage :: "SignboardReaderState \<Rightarrow> world \<Rightarrow> world" where
  "processImage c w =
     (if \<not> isActive c \<or> isProcessing c \<or> cameraRef w = None then w
      else
        (let w1 = setState (\<lambda>prev. prev\<lparr>isProcessing := True,
                                         status := ''Scanning for text...''\<rparr>) w;
             w2 = speakStatus ''Scanning for text, please wait.'' ''en-US'' w1
         in case cameraRef w of
              None \<Rightarrow> w
            | Some imageData \<Rightarrow>
                if imageData = None \<or> imageData = Some '''' then
                  processImage_catch (ErrorInstance ''Failed to capture image'') w2
                else
                  w2\<lparr>cycles := cycles w2 @
                         [\<lparr>cid = nextCycle w2, closure = c, phase = Capturing\<rparr>],
                     nextCycle := Suc (nextCycle w2)\<rparr>))"

definition ttsLanguage :: "language \<Rightarrow> string" where
  "ttsLanguage l = (if l = hin then ''hi-IN'' else if l = tel then ''te-IN'' else ''en-US'')"

text \<open>Lines 96 to 138: what the invocation with snapshot \<open>c\<close> does with recognised text.\<close>

definition processImage_result :: "SignboardReaderState \<Rightarrow> string \<Rightarrow> world \<Rightarrow> world" where
  "processImage_result c txt w =
     (let cleanText = trim txt
      in if length cleanText > 0 then
           (let w1 = setState (\<lambda>prev. prev\<lparr>recognizedText := cleanText,
                        status := ''Found text: '' @ take 50 cleanText @
                                  (if length cleanText > 50 then ''...'' else ''''),
                        isProcessing := False\<rparr>) w;
                w2 = speakStatus cleanText (ttsLanguage (currentLanguage c)) w1;
                (i, w3) = setTimeout (Rescan c) 3000 w2
            in w3\<lparr>processingTimeoutRef := Some i\<rparr>)
         else
           (let w1 = setState (\<lambda>prev. prev\<lparr>
                        status := ''No text found. Try adjusting the camera position.'',
                        isProcessing := False\<rparr>) w;
                w2 = speakStatus ''No text found. Try adjusting the camera position.''
                       ''en-US'' w1;
                (i, w3) = setTimeout (Rescan c) 1500 w2
            in w3\<lparr>processingTimeoutRef := Some i\<rparr>))"

subsection \<open>Rendering and the auto-start effect\<close>

text \<open>
  \<open>useCallback\<close> returns a new \<open>processImage\<close> exactly when one of
  \<open>state.isActive\<close>, \<open>state.isProcessing\<close>, \<open>state.currentLanguage\<close> differs from the
  previous render (the other dependencies are stable callbacks). The effect of lines
  152 to 157 depends on \<open>state.isActive\<close> and \<open>processImage\<close>, so it runs again on
  exactly those renders: first the cleanup of its previous run, then its body.
\<close>

definition deps :: "SignboardReaderState \<Rightarrow> bool \<times> bool \<times> language" where
  "deps s = (isActive s, isProcessing s, currentLanguage s)"

text \<open>The cleanup that the previous run of the effect returned, if it returned one.\<close>

definition clearEffect :: "world \<Rightarrow> world" where
  "clearEffect w = (case effectTimer w of Some i \<Rightarrow> clearTimeout i w | None \<Rightarrow> w)"

definition autoStartEffect :: "world \<Rightarrow> world" where
  "autoStartEffect w =
     (let w1 = clearEffect w
      in if isActive (st w1) \<and> \<not> isProcessing (st w1) then
           (let (i, w2) = setTimeout (AutoStart (st w1)) 1000 w1
            in w2\<lparr>effectTimer := Some i\<rparr>)
         else w1\<lparr>effectTimer := None\<rparr>)"

definition render :: "world \<Rightarrow> world" where
  "render w =
     (if deps (st w) = deps (memo w) then w
      else autoStartEffect (w\<lparr>memo := st w\<rparr>))"

subsection \<open>Events\<close>

definition findCycle :: "nat \<Rightarrow> world \<Rightarrow> cycle option" where
  "findCycle k w = find (\<lambda>c. cid c = k) (cycles w)"

definition dropCycle :: "nat \<Rightarrow> world \<Rightarrow> world" where
  "dropCycle k w = w\<lparr>cycles := filter (\<lambda>c. cid c \<noteq> k) (cycles w)\<rparr>"

definition setPhase :: "nat \<Rightarrow> phase \<Rightarrow> world \<Rightarrow> world" where
  "setPhase k p w =
     w\<lparr>cycles := map (\<lambda>c. if cid c = k then c\<lparr>phase := p\<rparr> else c) (cycles w)\<rparr>"

text \<open>The dynamic import of the recogniser resolved for cycle \<open>k\<close>: line 90 runs.\<close>

definition imported :: "nat \<Rightarrow> world \<Rightarrow> world" where
  "imported k w =
     (case findCycle k w of
        None \<Rightarrow> w
      | Some c \<Rightarrow>
          if phase c \<noteq> Capturing then w
          else updateStatus ''Processing text recognition...'' (setPhase k Recognizing w))"

text \<open>The worker was created, recognised \<open>txt\<close> and was terminated.\<close>

definition recognized :: "nat \<Rightarrow> string \<Rightarrow> world \<Rightarrow> world" where
  "recognized k txt w =
     (case findCycle k w of
        None \<Rightarrow> w
      | Some c \<Rightarrow>
          if phase c \<noteq> Recognizing then w
          else processImage_result (closure c) txt (dropCycle k w))"

text \<open>
  The promise that cycle \<open>k\<close> awaits (the import, or later the worker) was rejected.
\<close>

definition failed :: "nat \<Rightarrow> failure \<Rightarrow> world \<Rightarrow> world" where
  "failed k f w =
     (case findCycle k w of
        None \<Rightarrow> w
      | Some c \<Rightarrow> processImage_catch f (dropCycle k w))"

text \<open>Timer \<open>i\<close> fires, if it is outstanding.\<close>

definition fire :: "nat \<Rightarrow> world \<Rightarrow> world" where
  "fire i w =
     (case find (\<lambda>t. tid t = i) (timers w) of
        None \<Rightarrow> w
      | Some t \<Rightarrow>
          (let w1 = clearTimeout i w
           in case callback t of
                AutoStart c \<Rightarrow> processImage c w1
              | Rescan c \<Rightarrow> if isActive c then processImage c w1 else w1))"

definition handleLanguageChange :: "language \<Rightarrow> world \<Rightarrow> world" where
  "handleLanguageChange l w =
     speakStatus (''Language changed to '' @
                  (case l of eng \<Rightarrow> ''English'' | hin \<Rightarrow> ''Hindi'' | tel \<Rightarrow> ''Telugu''))
       ''en-US'' (setState (\<lambda>prev. prev\<lparr>currentLanguage := l\<rparr>) w)"

text \<open>
  An event is one task of the event loop: a clap, a timer that fires, a promise of a
  cycle that settles, a change of language, or the camera view setting or clearing its
  ref (\<open>Attach imageData\<close> also stands for a change of what \<open>captureImage\<close> would
  return). The component is a client component of the Next.js app router, which runs
  React 18: the state updates of one task are batched, and the render they cause
  follows the task.
\<close>

datatype event =
    Clap
  | Fire nat
  | Imported nat
  | Recognized nat string
  | Failed nat failure
  | LanguageChange language
  | Attach "string option"
  | Detach

fun handle :: "event \<Rightarrow> world \<Rightarrow> world" where
  "handle Clap w = handleClapDetected w"
| "handle (Fire i) w = fire i w"
| "handle (Imported k) w = imported k w"
| "handle (Recognized k txt) w = recognized k txt w"
| "handle (Failed k f) w = failed k f w"
| "handle (LanguageChange l) w = handleLanguageChange l w"
| "handle (Attach imageData) w = w\<lparr>cameraRef := Some imageData\<rparr>"
| "handle Detach w = w\<lparr>cameraRef := None\<rparr>"

definition step :: "event \<Rightarrow> world \<Rightarrow> world" where
  "step e w = render (handle e w)"

definition run :: "event list \<Rightarrow> world \<Rightarrow> world" where
  "run es w = foldl (\<lambda>w e. step e w) w es"

subsection \<open>Worlds reached by concrete sessions\<close>

definition pngFrame :: string where
  "pngFrame = ''data:image/png;base64,iVBORw0KGgo=''"

text \<open>
  A clap activates the reader, the camera view mounts, the auto-start timer (id 1) fires
  after 1000 ms and starts cycle 0, which takes its frame, and the recogniser is
  imported: cycle 0 is waiting for the recogniser.
\<close>

definition recognizingWorld :: world where
  "recognizingWorld =
     run [Clap, Attach (Some pngFrame), Fire 1, Imported 0] (initialWorld True)"

text \<open>The same session, but a second clap deactivates the reader before the result arrives.\<close>

definition deactivatedRecognizingWorld :: world where
  "deactivatedRecognizingWorld = step Clap recognizingWorld"

text \<open>The result of cycle 0 arrives after that deactivation.\<close>

definition staleResultWorld :: world where
  "staleResultWorld = step (Recognized 0 ''EXIT'') deactivatedRecognizingWorld"

text \<open>
  Cycle 0 reads \<open>EXIT\<close>: timer 2 is the rescan timer of line 118, timer 3 the timer of
  the auto-start effect, which ran again because \<open>processImage\<close> changed.
\<close>

definition foundWorld :: world where
  "foundWorld = step (Recognized 0 ''EXIT'') recognizingWorld"

text \<open>
  Timer 3 fires 1000 ms after that result and starts cycle 1, which comes to wait for
  the recogniser; timer 2 is due 2000 ms later.
\<close>

definition processingWorld :: world where
  "processingWorld = run [Fire 3, Imported 1] foundWorld"

text \<open>
  Cycle 1 finds no text before timer 2 is due: timer 4 is its retry timer, timer 5 the
  new auto-start timer.
\<close>

definition twoTimersWorld :: world where
  "twoTimersWorld = step (Recognized 1 ''  '') processingWorld"

text \<open>A clap deactivates the reader while timer 2 is still outstanding.\<close>

definition leakedTimerWorld :: world where
  "leakedTimerWorld = step Clap twoTimersWorld"

text \<open>
  While cycle 1 waits for the recogniser the user selects Hindi; then timer 2 fires and
  the cycle it starts comes to wait for the recogniser.
\<close>

definition languageChangedWorld :: world where
  "languageChangedWorld = step (LanguageChange hin) processingWorld"

definition staleLanguageWorld :: world where
  "staleLanguageWorld = run [Fire 2, Imported 2] languageChangedWorld"

text \<open>The recogniser of cycle 0 finds no text.\<close>

definition noTextWorld :: world where
  "noTextWorld = step (Recognized 0 ''  '') recognizingWorld"

text \<open>The recogniser of cycle 0 fails, for instance while it loads its language data.\<close>

definition recognitionFailedWorld :: world where
  "recognitionFailedWorld = step (Failed 0 (ErrorInstance ''Failed to fetch'')) recognizingWorld"

text \<open>
  The camera view is mounted but cannot produce a frame: the first cycle of the session
  fails to capture, within the task of the timer that starts it.
\<close>

definition captureFailedWorld :: world where
  "captureFailedWorld = run [Clap, Attach None, Fire 1] (initialWorld True)"

subsection \<open>Invariants of the timers\<close>

definition isAutoStart :: "timer \<Rightarrow> bool" where
  "isAutoStart t = (case callback t of AutoStart c \<Rightarrow> True | Rescan c \<Rightarrow> False)"

definition timersOk :: "world \<Rightarrow> bool" where
  "timersOk w \<longleftrightarrow>
     (\<forall>t \<in> set (timers w). tid t < nextTimer w) \<and>
     (\<forall>i. effectTimer w = Some i \<longrightarrow> i < nextTimer w) \<and>
     (\<forall>t \<in> set (timers w). isAutoStart t \<longleftrightarrow> effectTimer w = Some (tid t)) \<and>
     distinct (map tid (timers w))"

text \<open>
  Every outstanding timer of the auto-start effect holds the \<open>processImage\<close> of the
  latest render, and that render saw the reader active and idle.
\<close>

definition autoStartFresh :: "world \<Rightarrow> bool" where
  "autoStartFresh w \<longleftrightarrow>
     (\<forall>t \<in> set (timers w). \<forall>c. callback t = AutoStart c \<longrightarrow>
        deps c = deps (memo w) \<and> isActive c \<and> \<not> isProcessing c)"

section \<open>AudioDetector.tsx\<close>

text \<open>
  The analyser returns one byte per frequency bin. The sum of the bytes is an exact
  integer; with the configured \<open>fftSize\<close> of 256 there are 128 bins, the division by 128
  is exact in binary floating point, and the rounded quotient by 255 exceeds the double
  \<open>0.8\<close> exactly when the exact quotient exceeds \<open>4/5\<close> (the sum 26112 gives the double
  \<open>0.8\<close> itself, and every other sum is further away than any rounding error). The level
  is therefore modelled as a rational number. \<open>Date.now()\<close> is an integer number of
  milliseconds.
\<close>

record AudioDetector =
  audioLevel :: rat
  lastClapTimeRef :: int
  clapsDetected :: nat

definition initialDetector :: AudioDetector where
  "initialDetector = \<lparr>audioLevel = 0, lastClapTimeRef = 0, clapsDetected = 0\<rparr>"

definition clapThreshold :: rat where
  "clapThreshold = 8 / 10"

definition clapCooldown :: int where
  "clapCooldown = 1000"

definition normalizedLevel :: "8 word list \<Rightarrow> rat" where
  "normalizedLevel dataArray =
     (let bufferLength = length dataArray;
          sum = foldl (\<lambda>acc val. acc + unat val) 0 dataArray;
          average = of_nat sum / of_nat bufferLength
      in average / 255)"

text \<open>
  One run of \<open>processAudio\<close> at time \<open>now\<close>; \<open>None\<close> stands for \<open>analyserRef.current\<close>
  being null. The result tells whether \<open>onClapDetected\<close> was called.
\<close>

definition processAudio :: "8 word list option \<Rightarrow> int \<Rightarrow> AudioDetector \<Rightarrow> AudioDetector \<times> bool" where
  "processAudio analyser now d =
     (case analyser of
        None \<Rightarrow> (d, False)
      | Some dataArray \<Rightarrow>
          (let d1 = d\<lparr>audioLevel := normalizedLevel dataArray\<rparr>
           in if normalizedLevel dataArray > clapThreshold then
                (if now - lastClapTimeRef d1 > clapCooldown
                 then (d1\<lparr>lastClapTimeRef := now,
                          clapsDetected := Suc (clapsDetected d1)\<rparr>, True)
                 else (d1, False))
              else (d1, False)))"

text \<open>The sampling loop over a sequence of ticks, with the clap events it raises.\<close>

fun monitor :: "(8 word list option \<times> int) list \<Rightarrow> AudioDetector \<Rightarrow> bool list" where
  "monitor [] d = []"
| "monitor ((analyser, now) # ticks) d =
     snd (processAudio analyser now d) # monitor ticks (fst (processAudio analyser now d))"

text \<open>
  Following the words of the specification: the time of the previously emitted event
  among the ticks seen so far, each paired with whether it raised an event; \<open>t0\<close> is the
  time stamp to use while no event has been raised.
\<close>

fun lastAccepted :: "int \<Rightarrow> (int \<times> bool) list \<Rightarrow> int" where
  "lastAccepted t0 [] = t0"
| "lastAccepted t0 ((now, clap) # es) = lastAccepted (if clap then now else t0) es"

section \<open>TextToSpeech.tsx\<close>

text \<open>
  The component state together with the part of the browser's \<open>speechSynthesis\<close> object
  it drives: the queue of utterances (the head is the one being spoken), whether the
  engine is paused, and how often \<open>cancel\<close> was called.
\<close>

record TextToSpeech =
  textProp :: string
  languageProp :: language
  isSpeaking :: bool
  isPaused :: bool
  isSupported :: bool
  selectedVoice :: "string option"
  speechRate :: rat
  speechVolume :: rat
  synthesisQueue :: "utterance list"
  synthesisPaused :: bool
  cancelCalls :: nat

definition languageMap :: "language \<Rightarrow> string" where
  "languageMap l = (case l of eng \<Rightarrow> ''en-US'' | hin \<Rightarrow> ''hi-IN'' | tel \<Rightarrow> ''te-IN'')"

definition synthesisCancel :: "TextToSpeech \<Rightarrow> TextToSpeech" where
  "synthesisCancel s =
     s\<lparr>synthesisQueue := [], synthesisPaused := False, cancelCalls := Suc (cancelCalls s)\<rparr>"

text \<open>\<open>speak\<close>; the argument \<open>None\<close> is a call without argument, which speaks the \<open>text\<close> prop.\<close>

definition speak :: "string option \<Rightarrow> TextToSpeech \<Rightarrow> TextToSpeech" where
  "speak arg s =
     (let textToSpeak = (case arg of None \<Rightarrow> textProp s | Some t \<Rightarrow> t)
      in if \<not> isSupported s \<or> trim textToSpeak = [] then s
         else
           (let s1 = synthesisCancel s
            in s1\<lparr>synthesisQueue := synthesisQueue s1 @
                     [\<lparr>utterText = textToSpeak, utterLang = languageMap (languageProp s),
                       utterRate = speechRate s, utterVolume = speechVolume s,
                       utterVoice = selectedVoice s\<rparr>]\<rparr>))"

text \<open>The handlers \<open>onstart\<close>, and \<open>onend\<close> or \<open>onerror\<close>, of an utterance.\<close>

definition onstart :: "TextToSpeech \<Rightarrow> TextToSpeech" where
  "onstart s = s\<lparr>isSpeaking := True, isPaused := False\<rparr>"

definition onend :: "TextToSpeech \<Rightarrow> TextToSpeech" where
  "onend s = s\<lparr>isSpeaking := False, isPaused := False,
              synthesisQueue := drop 1 (synthesisQueue s)\<rparr>"

definition pause :: "TextToSpeech \<Rightarrow> TextToSpeech" where
  "pause s = (if isSpeaking s \<and> \<not> isPaused s
              then s\<lparr>synthesisPaused := True, isPaused := True\<rparr> else s)"

definition resume :: "TextToSpeech \<Rightarrow> TextToSpeech" where
  "resume s = (if isSpeaking s \<and> isPaused s
               then s\<lparr>synthesisPaused := False, isPaused := False\<rparr> else s)"

definition stop :: "TextToSpeech \<Rightarrow> TextToSpeech" where
  "stop s = (synthesisCancel s)\<lparr>isSpeaking := False, isPaused := False\<rparr>"

text \<open>A supported engine that is in the middle of speaking a sign.\<close>

definition speakingTts :: TextToSpeech where
  "speakingTts =
     \<lparr>textProp = ''EXIT 12B'', languageProp = eng, isSpeaking = True, isPaused = False,
      isSupported = True, selectedVoice = Some ''Samantha'', speechRate = 9 / 10,
      speechVolume = 8 / 10,
      synthesisQueue = [\<lparr>utterText = ''EXIT 12B'', utterLang = ''en-US'',
                         utterRate = 9 / 10, utterVolume = 8 / 10,
                         utterVoice = Some ''Samantha''\<rparr>],
      synthesisPaused = False, cancelCalls = 1\<rparr>"

section \<open>Properties of the recognition cycle\<close>

subsection \<open>Auxiliary facts\<close>

lemma trim_Nil_iff: "trim s = [] \<longleftrightarrow> (\<forall>c \<in> set s. isWhiteSpace c)"
proof
  assume "trim s = []"
  then have "\<forall>c \<in> set (dropWhile isWhiteSpace s). isWhiteSpace c"
    by (simp add: trim_def)
  then have "dropWhile isWhiteSpace s = []"
    by (metis hd_dropWhile list.set_sel(1))
  then show "\<forall>c \<in> set s. isWhiteSpace c"
    by simp
next
  assume "\<forall>c \<in> set s. isWhiteSpace c"
  then show "trim s = []" by (auto simp: trim_def dest: set_dropWhileD)
qed

lemma render_frame:
  "st (render w) = st w"
  "speakCalls (render w) = speakCalls w"
  "spoken (render w) = spoken w"
  "cycles (render w) = cycles w"
  "cameraRef (render w) = cameraRef w"
  "processingTimeoutRef (render w) = processingTimeoutRef w"
  by (simp_all add: render_def autoStartEffect_def clearEffect_def setTimeout_def clearTimeout_def Let_def
      split: option.splits)

lemma speakStatus_frame:
  "st (speakStatus t l w) = st w"
  "speakCalls (speakStatus t l w) = speakCalls w @ [(t, l)]"
  "timers (speakStatus t l w) = timers w"
  "nextTimer (speakStatus t l w) = nextTimer w"
  "effectTimer (speakStatus t l w) = effectTimer w"
  "processingTimeoutRef (speakStatus t l w) = processingTimeoutRef w"
  "cycles (speakStatus t l w) = cycles w"
  "memo (speakStatus t l w) = memo w"
  by (simp_all add: speakStatus_def Let_def)

lemma result_found:
  assumes "trim txt \<noteq> []"
  shows "st (processImage_result c txt w) =
           (st w)\<lparr>recognizedText := trim txt,
                  status := ''Found text: '' @ take 50 (trim txt) @
                            (if length (trim txt) > 50 then ''...'' else ''''),
                  isProcessing := False\<rparr>"
    and "speakCalls (processImage_result c txt w) =
           speakCalls w @ [(trim txt, ttsLanguage (currentLanguage c))]"
  using assms
  by (simp_all add: processImage_result_def Let_def setTimeout_def speakStatus_frame setState_def)

lemma result_empty:
  assumes "trim txt = []"
  shows "st (processImage_result c txt w) =
           (st w)\<lparr>status := ''No text found. Try adjusting the camera position.'',
                  isProcessing := False\<rparr>"
    and "speakCalls (processImage_result c txt w) =
           speakCalls w @ [(''No text found. Try adjusting the camera position.'', ''en-US'')]"
  using assms
  by (simp_all add: processImage_result_def Let_def setTimeout_def speakStatus_frame setState_def)

lemma result_timers:
  "timers (processImage_result c txt w) =
     timers w @ [\<lparr>tid = nextTimer w, delay = (if trim txt = [] then 1500 else 3000),
                  callback = Rescan c\<rparr>]"
  "processingTimeoutRef (processImage_result c txt w) = Some (nextTimer w)"
  "effectTimer (processImage_result c txt w) = effectTimer w"
  "nextTimer (processImage_result c txt w) = Suc (nextTimer w)"
  "memo (processImage_result c txt w) = memo w"
  by (simp_all add: processImage_result_def Let_def setTimeout_def speakStatus_frame setState_def)

lemma catch_frame:
  "st (processImage_catch f w) =
     (st w)\<lparr>error := Some (failureMessage f),
            status := ''Error during text recognition. Please try again.'',
            isProcessing := False\<rparr>"
  "speakCalls (processImage_catch f w) =
     speakCalls w @ [(''Error during text recognition. Please try again.'', ''en-US'')]"
  "timers (processImage_catch f w) = timers w"
  "nextTimer (processImage_catch f w) = nextTimer w"
  "effectTimer (processImage_catch f w) = effectTimer w"
  "memo (processImage_catch f w) = memo w"
  "processingTimeoutRef (processImage_catch f w) = processingTimeoutRef w"
  by (simp_all add: processImage_catch_def speakStatus_frame setState_def)

lemma dropCycle_frame:
  "st (dropCycle k w) = st w"
  "speakCalls (dropCycle k w) = speakCalls w"
  "timers (dropCycle k w) = timers w"
  "nextTimer (dropCycle k w) = nextTimer w"
  "effectTimer (dropCycle k w) = effectTimer w"
  "memo (dropCycle k w) = memo w"
  by (simp_all add: dropCycle_def)

lemma render_keeps_timer:
  assumes "t \<in> set (timers w)" and "effectTimer w \<noteq> Some (tid t)"
  shows "t \<in> set (timers (render w))"
  using assms
  by (auto simp: render_def autoStartEffect_def clearEffect_def setTimeout_def clearTimeout_def Let_def
      split: option.splits)

subsection \<open>The timer invariants hold in every reachable world\<close>

lemma timersOk_initial: "timersOk (initialWorld supported)"
  by (simp add: timersOk_def initialWorld_def)

lemma timersOk_cong:
  "timers v = timers w \<Longrightarrow> nextTimer v = nextTimer w \<Longrightarrow> effectTimer v = effectTimer w \<Longrightarrow>
   timersOk v = timersOk w"
  by (simp add: timersOk_def)

lemma processImage_frame:
  "timers (processImage c w) = timers w"
  "nextTimer (processImage c w) = nextTimer w"
  "effectTimer (processImage c w) = effectTimer w"
  "memo (processImage c w) = memo w"
  "processingTimeoutRef (processImage c w) = processingTimeoutRef w"
  by (simp_all add: processImage_def Let_def speakStatus_def setState_def processImage_catch_def
      split: option.splits)

lemma timersOk_speakStatus: "timersOk (speakStatus t l w) = timersOk w"
  by (rule timersOk_cong) (simp_all add: speakStatus_frame)

lemma timersOk_setState: "timersOk (setState f w) = timersOk w"
  by (rule timersOk_cong) (simp_all add: setState_def)

lemma timersOk_clearTimeout: "timersOk w \<Longrightarrow> timersOk (clearTimeout i w)"
  by (auto simp: timersOk_def clearTimeout_def distinct_map_filter)

lemma timersOk_processImage: "timersOk (processImage c w) = timersOk w"
  by (rule timersOk_cong) (simp_all add: processImage_frame)

lemma timersOk_catch: "timersOk (processImage_catch f w) = timersOk w"
  by (rule timersOk_cong) (simp_all add: catch_frame)

lemma timersOk_dropCycle: "timersOk (dropCycle k w) = timersOk w"
  by (rule timersOk_cong) (simp_all add: dropCycle_def)

lemma timersOk_setPhase: "timersOk (setPhase k p w) = timersOk w"
  by (rule timersOk_cong) (simp_all add: setPhase_def)

lemma timersOk_result: "timersOk w \<Longrightarrow> timersOk (processImage_result c txt w)"
  by (auto simp: timersOk_def result_timers isAutoStart_def less_Suc_eq)

lemma timersOk_handleClapDetected: "timersOk w \<Longrightarrow> timersOk (handleClapDetected w)"
proof -
  assume ok: "timersOk w"
  have a: "timersOk (v\<lparr>st := s\<rparr>) = timersOk v" for v s
    by (rule timersOk_cong) simp_all
  show ?thesis using ok
    by (simp add: handleClapDetected_def Let_def a timersOk_speakStatus timersOk_clearTimeout
        split: option.splits)
qed

lemma timersOk_fire: "timersOk w \<Longrightarrow> timersOk (fire i w)"
  by (simp add: fire_def Let_def timersOk_processImage timersOk_clearTimeout
      split: option.splits callback.splits)

lemma timersOk_handle: "timersOk w \<Longrightarrow> timersOk (handle e w)"
proof -
  assume ok: "timersOk w"
  have a: "timersOk (v\<lparr>cameraRef := r\<rparr>) = timersOk v" for v r
    by (rule timersOk_cong) simp_all
  show ?thesis using ok
    by (cases e)
      (simp_all add: a timersOk_handleClapDetected timersOk_fire imported_def recognized_def
        failed_def handleLanguageChange_def timersOk_catch timersOk_result timersOk_dropCycle
        timersOk_setPhase updateStatus_def timersOk_setState timersOk_speakStatus
        split: option.splits)
qed

lemma timersOk_autoStartEffect: "timersOk w \<Longrightarrow> timersOk (autoStartEffect w)"
  by (auto simp: timersOk_def autoStartEffect_def clearEffect_def Let_def setTimeout_def clearTimeout_def
      isAutoStart_def less_Suc_eq distinct_map_filter split: option.splits)

lemma timersOk_render: "timersOk w \<Longrightarrow> timersOk (render w)"
proof -
  assume ok: "timersOk w"
  have "timersOk (w\<lparr>memo := st w\<rparr>) = timersOk w" by (rule timersOk_cong) simp_all
  then show ?thesis using ok by (simp add: render_def timersOk_autoStartEffect)
qed

lemma timersOk_step: "timersOk w \<Longrightarrow> timersOk (step e w)"
  by (simp add: step_def timersOk_render timersOk_handle)

lemma timersOk_run: "timersOk w \<Longrightarrow> timersOk (run es w)"
  by (induction es arbitrary: w) (simp_all add: run_def timersOk_step)



text \<open>The timers of the auto-start effect hold the current \<open>processImage\<close>.\<close>

lemma autoStartFresh_initial: "autoStartFresh (initialWorld supported)"
  by (simp add: autoStartFresh_def initialWorld_def)

lemma autoStartFresh_subset:
  assumes "autoStartFresh w" and "memo v = memo w"
    and "\<forall>t \<in> set (timers v). t \<in> set (timers w) \<or> \<not> isAutoStart t"
  shows "autoStartFresh v"
  using assms by (fastforce simp: autoStartFresh_def isAutoStart_def)

lemma handle_frame:
  "memo (handle e w) = memo w"
  "\<forall>t \<in> set (timers (handle e w)). t \<in> set (timers w) \<or> \<not> isAutoStart t"
proof -
  show "memo (handle e w) = memo w"
    by (cases e)
      (simp_all add: handleClapDetected_def fire_def imported_def recognized_def failed_def
        handleLanguageChange_def Let_def processImage_frame catch_frame result_timers
        dropCycle_frame speakStatus_frame clearTimeout_def setPhase_def updateStatus_def
        setState_def split: option.splits callback.splits)
  show "\<forall>t \<in> set (timers (handle e w)). t \<in> set (timers w) \<or> \<not> isAutoStart t"
    by (cases e)
      (auto simp: handleClapDetected_def fire_def imported_def recognized_def failed_def
        handleLanguageChange_def Let_def processImage_frame catch_frame result_timers
        dropCycle_frame speakStatus_frame clearTimeout_def setPhase_def updateStatus_def
        setState_def isAutoStart_def split: option.splits callback.splits)
qed

lemma autoStartFresh_handle: "autoStartFresh w \<Longrightarrow> autoStartFresh (handle e w)"
  by (erule autoStartFresh_subset) (rule handle_frame)+

lemma cleared_no_autoStart:
  assumes "timersOk w" and "t \<in> set (timers (clearEffect w))"
  shows "callback t \<noteq> AutoStart c"
proof
  assume a: "callback t = AutoStart c"
  then have "isAutoStart t" by (simp add: isAutoStart_def)
  moreover from assms(2) have "t \<in> set (timers w)"
    by (auto simp: clearEffect_def clearTimeout_def split: option.splits)
  ultimately have "effectTimer w = Some (tid t)"
    using assms(1) by (simp add: timersOk_def)
  with assms(2) show False
    by (simp add: clearEffect_def clearTimeout_def)
qed

lemma autoStartFresh_render:
  assumes "timersOk w" and "autoStartFresh w"
  shows "autoStartFresh (render w)"
proof (cases "deps (st w) = deps (memo w)")
  case True
  with assms(2) show ?thesis by (simp add: render_def)
next
  case False
  let ?v = "w\<lparr>memo := st w\<rparr>"
  have ok: "timersOk ?v" using assms(1) timersOk_cong [of ?v w] by simp
  have none: "callback t \<noteq> AutoStart c" if "t \<in> set (timers (clearEffect ?v))" for t c
    using ok that by (rule cleared_no_autoStart)
  have "autoStartFresh (autoStartEffect ?v)"
    using none
    by (auto simp: autoStartEffect_def autoStartFresh_def Let_def setTimeout_def
        clearEffect_def clearTimeout_def split: option.splits)
  with False show ?thesis by (simp add: render_def)
qed

lemma memo_current_render: "deps (memo (render w)) = deps (st (render w))"
  by (simp add: render_def autoStartEffect_def clearEffect_def setTimeout_def clearTimeout_def Let_def
      split: option.splits)

lemma invariants_step:
  assumes "timersOk w" and "autoStartFresh w"
  shows "timersOk (step e w)" and "autoStartFresh (step e w)"
    and "deps (memo (step e w)) = deps (st (step e w))"
  using assms
  by (simp_all add: step_def timersOk_render timersOk_handle autoStartFresh_render
      autoStartFresh_handle memo_current_render)

lemma invariants_run:
  assumes "timersOk w" and "autoStartFresh w" and "deps (memo w) = deps (st w)"
  shows "timersOk (run es w) \<and> autoStartFresh (run es w)
         \<and> deps (memo (run es w)) = deps (st (run es w))"
  using assms
  by (induction es arbitrary: w) (simp_all add: run_def invariants_step)

lemma invariants_reachable:
  "timersOk (run es (initialWorld supported))"
  "autoStartFresh (run es (initialWorld supported))"
  "deps (memo (run es (initialWorld supported))) = deps (st (run es (initialWorld supported)))"
proof -
  have "deps (memo (initialWorld supported)) = deps (st (initialWorld supported))"
    by (simp add: initialWorld_def)
  from invariants_run [OF timersOk_initial autoStartFresh_initial this, of es]
  show "timersOk (run es (initialWorld supported))"
    and "autoStartFresh (run es (initialWorld supported))"
    and "deps (memo (run es (initialWorld supported))) = deps (st (run es (initialWorld supported)))"
    by blast+
qed

text \<open>
  A timer of the auto-start effect that is outstanding in a reachable world closes over
  the current flags and the selected language, and the reader is active and idle.
\<close>

lemma autoStart_timer_is_current:
  assumes "t \<in> set (timers (run es (initialWorld supported)))" and "callback t = AutoStart c"
  shows "deps c = deps (st (run es (initialWorld supported)))"
    and "isActive c" and "\<not> isProcessing c"
  using assms invariants_reachable [of es supported]
  by (auto simp: autoStartFresh_def)


lemma render_inactive_timers:
  assumes "\<not> isActive (st w)"
  shows "set (timers (render w)) \<subseteq> set (timers w)"
  using assms
  by (auto simp: render_def autoStartEffect_def clearEffect_def clearTimeout_def
      split: option.splits)


subsection \<open>Recognised text is announced\<close>

text \<open>
  The announcement itself: the trimmed text is spoken once, in the locale of the
  language of the closure that ran the cycle, and the state is updated from it.
\<close>

lemma found_text_step:
  assumes "findCycle k w = Some c" and "phase c = Recognizing" and "trim txt \<noteq> []"
  shows "speakCalls (step (Recognized k txt) w) =
           speakCalls w @ [(trim txt, ttsLanguage (currentLanguage (closure c)))]"
    and "recognizedText (st (step (Recognized k txt) w)) = trim txt"
    and "status (st (step (Recognized k txt) w)) =
           ''Found text: '' @ take 50 (trim txt) @ (if length (trim txt) > 50 then ''...'' else '''')"
    and "\<not> isProcessing (st (step (Recognized k txt) w))"
  using assms
  by (simp_all add: step_def recognized_def render_frame result_found dropCycle_frame)

text \<open>
  Claim C7. The locale of the announcement is that of the closure's language, and the
  closure of a cycle started by a rescan timer is the closure of the cycle before it.
  In the session below the user selects Hindi while cycle 1 is in flight; rescan timer
  2, scheduled by cycle 0 under English, then starts cycle 2. Hindi is the selected
  language when cycle 2 starts and when its text \<open>NIKAS\<close> arrives, yet the recogniser was
  given English and the text is spoken with the locale \<open>en-US\<close>, not \<open>hi-IN\<close>.
\<close>

theorem C7_stale_rescan_speaks_old_locale:
  "currentLanguage (st languageChangedWorld) = hin
   \<and> map (\<lambda>t. (tid t, delay t, isAutoStart t)) (timers languageChangedWorld) = [(2, 3000, False)]
   \<and> currentLanguage (st staleLanguageWorld) = hin
   \<and> map (\<lambda>c. (cid c, phase c, currentLanguage (closure c))) (cycles staleLanguageWorld) =
       [(1, Recognizing, eng), (2, Recognizing, eng)]
   \<and> speakCalls (step (Recognized 2 ''NIKAS'') staleLanguageWorld) =
       speakCalls staleLanguageWorld @ [(''NIKAS'', ''en-US'')]
   \<and> recognizedText (st (step (Recognized 2 ''NIKAS'') staleLanguageWorld)) = ''NIKAS''
   \<and> currentLanguage (st (step (Recognized 2 ''NIKAS'') staleLanguageWorld)) = hin
   \<and> ttsLanguage hin = ''hi-IN''"
  by code_simp

subsection \<open>No text found\<close>

text \<open>
  The handling of an empty result itself: the status is set and spoken, and the retry
  timer of 1500 ms is scheduled behind the timers that are outstanding.
\<close>

lemma no_text_step:
  assumes "findCycle k w = Some c" and "phase c = Recognizing" and "trim txt = []"
  shows "status (st (step (Recognized k txt) w)) =
           ''No text found. Try adjusting the camera position.''"
    and "\<not> isProcessing (st (step (Recognized k txt) w))"
    and "speakCalls (step (Recognized k txt) w) =
           speakCalls w @ [(''No text found. Try adjusting the camera position.'', ''en-US'')]"
    and "processingTimeoutRef (step (Recognized k txt) w) = Some (nextTimer w)"
  using assms
  by (simp_all add: step_def recognized_def render_frame result_empty result_timers
      dropCycle_frame)

text \<open>
  Claim C9. After a white-space result the status, \<open>isProcessing\<close> and the spoken status
  are as the claim says, and retry timer 2 with a delay of 1500 ms is outstanding. But
  the update of \<open>isProcessing\<close> makes the auto-start effect run again, which arms timer 3
  with a delay of 1000 ms: the next cycle starts when timer 3 fires, 500 ms before the
  retry is due, and when the retry timer fires it starts cycle 2 beside cycle 1.
\<close>

theorem C9_auto_start_preempts_retry:
  "status (st noTextWorld) = ''No text found. Try adjusting the camera position.''
   \<and> \<not> isProcessing (st noTextWorld)
   \<and> speakCalls noTextWorld =
       speakCalls recognizingWorld @
       [(''No text found. Try adjusting the camera position.'', ''en-US'')]
   \<and> map (\<lambda>t. (tid t, delay t, isAutoStart t)) (timers noTextWorld) =
       [(2, 1500, False), (3, 1000, True)]
   \<and> map (\<lambda>c. (cid c, phase c)) (cycles (step (Fire 3) noTextWorld)) = [(1, Capturing)]
   \<and> map (\<lambda>t. (tid t, delay t, isAutoStart t)) (timers (step (Fire 3) noTextWorld)) =
       [(2, 1500, False)]
   \<and> map (\<lambda>c. (cid c, phase c)) (cycles (run [Fire 3, Imported 1, Fire 2] noTextWorld)) =
       [(1, Recognizing), (2, Capturing)]"
  by code_simp

subsection \<open>A result that arrives after deactivation\<close>

text \<open>
  Claim C1 says that a result arriving after a deactivation during recognition changes
  nothing. The code has no such check: in the session below the reader is deactivated
  while cycle 0 waits for the recogniser; the text \<open>EXIT\<close> that arrives afterwards is
  written to \<open>recognizedText\<close> and \<open>status\<close> and is spoken.
\<close>

theorem C1_counterexample:
  "\<not> isActive (st deactivatedRecognizingWorld)
   \<and> map (\<lambda>c. (cid c, phase c)) (cycles deactivatedRecognizingWorld) = [(0, Recognizing)]
   \<and> recognizedText (st deactivatedRecognizingWorld) = ''''
   \<and> status (st deactivatedRecognizingWorld) = ''Deactivated. Clap to activate again.''
   \<and> recognizedText (st (step (Recognized 0 ''EXIT'') deactivatedRecognizingWorld)) = ''EXIT''
   \<and> status (st (step (Recognized 0 ''EXIT'') deactivatedRecognizingWorld)) = ''Found text: EXIT''
   \<and> speakCalls (step (Recognized 0 ''EXIT'') deactivatedRecognizingWorld) =
       speakCalls deactivatedRecognizingWorld @ [(''EXIT'', ''en-US'')]"
  by code_simp

text \<open>
  Claim C1, as amended. Deactivation does not discard the result of a cycle that waits
  for the recogniser. With \<open>isActive\<close> false, a text with a non-empty trimmed form is
  written to \<open>recognizedText\<close> and to the status, \<open>isProcessing\<close> is set to false and
  the text is spoken in the locale of the cycle's language; a failure sets \<open>error\<close> to
  its message, sets the error status and speaks it. Only \<open>isActive\<close> stays false.
\<close>

theorem C1_stale_result_is_applied:
  assumes "\<not> isActive (st w)" and "findCycle k w = Some c" and "phase c = Recognizing"
    and "trim txt \<noteq> []"
  shows "recognizedText (st (step (Recognized k txt) w)) = trim txt
       \<and> status (st (step (Recognized k txt) w)) =
           ''Found text: '' @ take 50 (trim txt) @ (if length (trim txt) > 50 then ''...'' else '''')
       \<and> \<not> isProcessing (st (step (Recognized k txt) w))
       \<and> speakCalls (step (Recognized k txt) w) =
           speakCalls w @ [(trim txt, ttsLanguage (currentLanguage (closure c)))]
       \<and> error (st (step (Failed k f) w)) = Some (failureMessage f)
       \<and> status (st (step (Failed k f) w)) = ''Error during text recognition. Please try again.''
       \<and> speakCalls (step (Failed k f) w) =
           speakCalls w @ [(''Error during text recognition. Please try again.'', ''en-US'')]
       \<and> \<not> isActive (st (step (Recognized k txt) w))
       \<and> \<not> isActive (st (step (Failed k f) w))"
  using assms
  by (simp add: step_def recognized_def failed_def render_frame result_found catch_frame
      dropCycle_frame)

theorem C1_stale_result_is_applied_witness:
  "\<not> isActive (st deactivatedRecognizingWorld)
   \<and> map_option phase (findCycle 0 deactivatedRecognizingWorld) = Some Recognizing
   \<and> trim ''EXIT'' \<noteq> []
   \<and> recognizedText (st (step (Recognized 0 ''EXIT'') deactivatedRecognizingWorld)) = ''EXIT''
   \<and> error (st (step (Failed 0 (ErrorInstance ''Network error'')) deactivatedRecognizingWorld)) =
       Some ''Network error''"
proof -
  have h1: "\<not> isActive (st deactivatedRecognizingWorld)"
    by code_simp
  obtain c where h2: "findCycle 0 deactivatedRecognizingWorld = Some c"
    and h3: "phase c = Recognizing"
  proof -
    have "map_option phase (findCycle 0 deactivatedRecognizingWorld) = Some Recognizing"
      by code_simp
    then show ?thesis using that by auto
  qed
  have h4: "trim ''EXIT'' = ''EXIT''" by code_simp
  then have h4': "trim ''EXIT'' \<noteq> []" by simp
  from C1_stale_result_is_applied [OF h1 h2 h3 h4', of "ErrorInstance ''Network error''"] h1 h2 h3 h4
  show ?thesis by (simp add: failureMessage_def)
qed

subsection \<open>A failed cycle\<close>

text \<open>
  A capture that fails does so within the task that starts the cycle, so the render
  after that task sees \<open>isProcessing\<close> unchanged: the error is set and spoken, and no
  timer is outstanding afterwards.
\<close>

lemma capture_failure_schedules_nothing:
  "isActive (st captureFailedWorld)
   \<and> error (st captureFailedWorld) = Some ''Failed to capture image''
   \<and> status (st captureFailedWorld) = ''Error during text recognition. Please try again.''
   \<and> \<not> isProcessing (st captureFailedWorld)
   \<and> cycles captureFailedWorld = []
   \<and> timers captureFailedWorld = []"
  by code_simp

text \<open>
  Claim C2. The \<open>catch\<close> block sets \<open>error\<close>, the error status and \<open>isProcessing\<close>
  and schedules no timer (\<open>catch_frame\<close>). A failure of the recogniser, however, arrives
  in a later task than the start of the cycle, after the render that saw
  \<open>isProcessing\<close> true. Setting it back to false gives a new \<open>processImage\<close>, so the
  auto-start effect runs again while the reader is active: in the session below timer 2
  with a delay of 1000 ms is outstanding after the failure, and when it fires cycle 1
  starts.
\<close>

theorem C2_recognition_failure_rearms_auto_start:
  "isActive (st recognitionFailedWorld)
   \<and> error (st recognitionFailedWorld) = Some ''Failed to fetch''
   \<and> status (st recognitionFailedWorld) = ''Error during text recognition. Please try again.''
   \<and> \<not> isProcessing (st recognitionFailedWorld)
   \<and> cycles recognitionFailedWorld = []
   \<and> map (\<lambda>t. (tid t, delay t, isAutoStart t)) (timers recognitionFailedWorld) =
       [(2, 1000, True)]
   \<and> isProcessing (st (step (Fire 2) recognitionFailedWorld))
   \<and> map (\<lambda>c. (cid c, phase c)) (cycles (step (Fire 2) recognitionFailedWorld)) =
       [(1, Capturing)]"
  by code_simp

subsection \<open>Outstanding timers\<close>




subsection \<open>The clap toggle\<close>

text \<open>
  Claim C5 says that an activating clap empties \<open>recognizedText\<close> and that a
  deactivating clap cancels any pending timer. After the stale result of the session
  above the inactive reader holds the text \<open>EXIT\<close>, and the activating clap keeps it.
  In the session with timers 2, 4 and 5 outstanding, timer 2 is still outstanding after
  the deactivating clap.
\<close>

theorem C5_counterexample:
  "\<not> isActive (st staleResultWorld)
   \<and> recognizedText (st staleResultWorld) = ''EXIT''
   \<and> isActive (st (step Clap staleResultWorld))
   \<and> recognizedText (st (step Clap staleResultWorld)) = ''EXIT''
   \<and> isActive (st twoTimersWorld)
   \<and> map tid (timers twoTimersWorld) = [2, 4, 5]
   \<and> \<not> isActive (st (step Clap twoTimersWorld))
   \<and> map tid (timers (step Clap twoTimersWorld)) = [2]"
  by code_simp

text \<open>
  Claim C5, as amended. A clap while \<open>isActive\<close> is false sets it to true, sets \<open>error\<close>
  to null, sets the "activated" status and announces the activation; it leaves
  \<open>recognizedText\<close> unchanged. A clap while \<open>isActive\<close> is true sets it to false,
  cancels the timer recorded in \<open>processingTimeoutRef\<close>, sets \<open>isProcessing\<close> to false,
  empties \<open>recognizedText\<close>, sets the "deactivated" status and announces the
  deactivation.
\<close>

theorem C5_toggle:
  "(\<not> isActive (st w) \<longrightarrow>
      isActive (st (step Clap w))
      \<and> recognizedText (st (step Clap w)) = recognizedText (st w)
      \<and> error (st (step Clap w)) = None
      \<and> status (st (step Clap w)) = ''Camera activated! Point at text to read.''
      \<and> speakCalls (step Clap w) =
          speakCalls w @ [(''SignBoard Reader activated. Point camera at text.'', ''en-US'')])
   \<and> (isActive (st w) \<longrightarrow>
      \<not> isActive (st (step Clap w))
      \<and> (\<forall>i. processingTimeoutRef w = Some i \<longrightarrow> i \<notin> tid ` set (timers (step Clap w)))
      \<and> \<not> isProcessing (st (step Clap w))
      \<and> recognizedText (st (step Clap w)) = ''''
      \<and> status (st (step Clap w)) = ''Deactivated. Clap to activate again.''
      \<and> speakCalls (step Clap w) =
          speakCalls w @ [(''SignBoard Reader deactivated.'', ''en-US'')])"
proof -
  have cancelled: "i \<notin> tid ` set (timers (step Clap w))"
    if "isActive (st w)" and "processingTimeoutRef w = Some i" for i
  proof -
    let ?v = "handleClapDetected w"
    have "\<not> isActive (st ?v)"
      using that by (simp add: handleClapDetected_def Let_def split: option.splits)
    then have "set (timers (step Clap w)) \<subseteq> set (timers ?v)"
      by (simp add: step_def render_inactive_timers)
    moreover have "i \<notin> tid ` set (timers ?v)"
      using that
      by (auto simp: handleClapDetected_def Let_def speakStatus_frame clearTimeout_def)
    ultimately show ?thesis by blast
  qed
  show ?thesis
    using cancelled
    by (simp add: step_def render_frame handleClapDetected_def Let_def speakStatus_frame
        clearTimeout_def split: option.splits)
qed

theorem C5_toggle_witness:
  "\<not> isActive (st (initialWorld True))
   \<and> isActive (st (step Clap (initialWorld True)))
   \<and> error (st (step Clap (initialWorld True))) = None
   \<and> isActive (st twoTimersWorld)
   \<and> recognizedText (st twoTimersWorld) = ''EXIT''
   \<and> processingTimeoutRef twoTimersWorld = Some 4
   \<and> 4 \<in> tid ` set (timers twoTimersWorld)
   \<and> \<not> isActive (st (step Clap twoTimersWorld))
   \<and> recognizedText (st (step Clap twoTimersWorld)) = ''''
   \<and> 4 \<notin> tid ` set (timers (step Clap twoTimersWorld))"
proof -
  have a: "\<not> isActive (st (initialWorld True))" by (simp add: initialWorld_def initialState_def)
  have b: "isActive (st twoTimersWorld)" "recognizedText (st twoTimersWorld) = ''EXIT''"
    "processingTimeoutRef twoTimersWorld = Some 4"
    by code_simp+
  have c: "map tid (timers twoTimersWorld) = [2, 4, 5]" by code_simp
  have d: "4 \<in> tid ` set (timers twoTimersWorld)"
    using c by (metis image_set list.set_intros(1) list.set_intros(2))
  from C5_toggle [of "initialWorld True"] C5_toggle [of twoTimersWorld] a b d show ?thesis
    by simp
qed

subsection \<open>Cycles in flight\<close>

text \<open>
  Called through the \<open>processImage\<close> of the current render, whose snapshot agrees with
  the state, the guard does make the call a no-op while a cycle is processing or the
  reader is inactive.
\<close>

lemma processImage_guard_current:
  "\<not> isActive (st w) \<or> isProcessing (st w) \<Longrightarrow> deps c = deps (st w) \<Longrightarrow> processImage c w = w"
  by (auto simp: processImage_def deps_def)

text \<open>
  Claim C6. The guard of \<open>processImage\<close> reads the state snapshot of its closure. The
  rescan timer of a finished cycle holds the closure of that cycle, in which
  \<open>isProcessing\<close> is false. In the session below cycle 1, started by the auto-start
  timer, is in flight and \<open>isProcessing\<close> is true when rescan timer 2 fires: the call
  is not a no-op, it announces a scan and starts cycle 2 beside cycle 1.
\<close>

theorem C6_stale_rescan_starts_second_cycle:
  "isActive (st processingWorld) \<and> isProcessing (st processingWorld)
   \<and> map (\<lambda>c. (cid c, phase c)) (cycles processingWorld) = [(1, Recognizing)]
   \<and> map (\<lambda>t. (tid t, delay t, isAutoStart t)) (timers processingWorld) = [(2, 3000, False)]
   \<and> map (\<lambda>c. (cid c, phase c)) (cycles (step (Fire 2) processingWorld)) =
       [(1, Recognizing), (2, Capturing)]
   \<and> speakCalls (step (Fire 2) processingWorld) =
       speakCalls processingWorld @ [(''Scanning for text, please wait.'', ''en-US'')]"
  by code_simp

subsection \<open>The rescan timer\<close>

text \<open>
  Claim C8. After the text \<open>EXIT\<close> the rescan timer 2 with a delay of 3000 ms is
  outstanding (beside the auto-start timer 3 with 1000 ms). Its callback tests
  \<open>isActive\<close> of the closure's snapshot, which is true, not the current flag: in the
  session below the reader is inactive and idle when timer 2 fires, and cycle 2 starts
  all the same.
\<close>

theorem C8_rescan_checks_stale_flag:
  "map (\<lambda>t. (tid t, delay t, isAutoStart t)) (timers foundWorld) =
     [(2, 3000, False), (3, 1000, True)]
   \<and> \<not> isActive (st leakedTimerWorld)
   \<and> \<not> isProcessing (st leakedTimerWorld)
   \<and> cycles leakedTimerWorld = []
   \<and> map (\<lambda>t. (tid t, delay t, isAutoStart t)) (timers leakedTimerWorld) = [(2, 3000, False)]
   \<and> \<not> isActive (st (step (Fire 2) leakedTimerWorld))
   \<and> isProcessing (st (step (Fire 2) leakedTimerWorld))
   \<and> map (\<lambda>c. (cid c, phase c)) (cycles (step (Fire 2) leakedTimerWorld)) = [(2, Capturing)]"
  by code_simp

section \<open>Properties of the clap detector\<close>

lemma foldl_replicate:
  "foldl (\<lambda>acc val. acc + unat val) a (replicate n (v :: 8 word)) = a + n * unat v"
  by (induction n arbitrary: a) simp_all

lemma level_full: "normalizedLevel (replicate 128 255) = 1"
  by (simp add: normalizedLevel_def foldl_replicate)

lemma processAudio_clap:
  "snd (processAudio a now d) \<longleftrightarrow>
     (\<exists>dataArray. a = Some dataArray \<and> normalizedLevel dataArray > 8 / 10
        \<and> now - lastClapTimeRef d > 1000)"
  by (cases a) (simp_all add: processAudio_def Let_def clapThreshold_def clapCooldown_def)

lemma processAudio_last:
  "lastClapTimeRef (fst (processAudio a now d)) =
     (if snd (processAudio a now d) then now else lastClapTimeRef d)"
  by (cases a) (simp_all add: processAudio_def Let_def)

lemma monitor_nth:
  "i < length ticks \<Longrightarrow>
   monitor ticks d ! i \<longleftrightarrow>
     (\<exists>dataArray. fst (ticks ! i) = Some dataArray \<and> normalizedLevel dataArray > 8 / 10
        \<and> snd (ticks ! i)
            - lastAccepted (lastClapTimeRef d) (take i (zip (map snd ticks) (monitor ticks d)))
            > 1000)"
proof (induction ticks arbitrary: i d)
  case Nil
  then show ?case by simp
next
  case (Cons tick ticks)
  obtain a now where tick: "tick = (a, now)" by (cases tick)
  show ?case
  proof (cases i)
    case 0
    then show ?thesis by (simp add: tick processAudio_clap)
  next
    case (Suc j)
    with Cons.prems have j: "j < length ticks" by simp
    show ?thesis
      using Cons.IH [OF j, of "fst (processAudio a now d)"]
      by (simp add: tick Suc processAudio_last)
  qed
qed

text \<open>
  Claim C4 says that a tick raises a clap event when its level exceeds 0.8 and at least
  1000 ms have passed since the previous event. The comparison in the code is strict:
  with every bin at 255 the level is 1, the first tick raises an event, and the tick
  exactly 1000 ms later raises none.
\<close>

theorem C4_counterexample:
  "monitor [(Some (replicate 128 255), 1762150000000),
            (Some (replicate 128 255), 1762150001000)] initialDetector = [True, False]
   \<and> normalizedLevel (replicate 128 255) > 8 / 10
   \<and> (1762150001000 :: int) - 1762150000000 \<ge> 1000"
  by (simp add: processAudio_def level_full clapThreshold_def clapCooldown_def
      initialDetector_def)

text \<open>
  Claim C4, as amended. Along every sequence of sampling ticks, started in any state of
  the detector, tick \<open>i\<close> raises a clap event if and only if the analyser is present, the
  normalised level of its bins (their average divided by 255) exceeds 0.8, and more than
  1000 ms have passed since the time of the latest earlier tick that raised an event (or
  since the initial \<open>lastClapTimeRef\<close>, which is 0 in a fresh detector, if there is none).
  A tick that raises an event sets \<open>lastClapTimeRef\<close> to its time, any other tick leaves it
  unchanged.
\<close>

theorem C4_clap_iff_cooldown_exceeded:
  assumes "i < length ticks"
  shows "(monitor ticks d ! i \<longleftrightarrow>
           (\<exists>dataArray. fst (ticks ! i) = Some dataArray \<and> normalizedLevel dataArray > 8 / 10
              \<and> snd (ticks ! i)
                  - lastAccepted (lastClapTimeRef d)
                      (take i (zip (map snd ticks) (monitor ticks d)))
                  > 1000))
       \<and> lastClapTimeRef (fst (processAudio a now d)) =
           (if snd (processAudio a now d) then now else lastClapTimeRef d)"
  using assms by (simp only: monitor_nth processAudio_last simp_thms)

theorem C4_clap_iff_cooldown_exceeded_witness:
  "(2::nat) < length [(Some (replicate 128 (255 :: 8 word)), 1762150000000 :: int),
                      (Some (replicate 128 255), 1762150001000),
                      (Some (replicate 128 255), 1762150001001)]
   \<and> monitor [(Some (replicate 128 255), 1762150000000),
               (Some (replicate 128 255), 1762150001000),
               (Some (replicate 128 255), 1762150001001)] initialDetector ! 2
   \<and> monitor [(Some (replicate 128 255), 1762150000000),
               (Some (replicate 128 255), 1762150001000),
               (Some (replicate 128 255), 1762150001001)] initialDetector = [True, False, True]
   \<and> lastClapTimeRef (fst (processAudio (Some (replicate 128 255)) 1762150000000 initialDetector)) =
       1762150000000"
proof -
  let ?ticks = "[(Some (replicate 128 (255 :: 8 word)), 1762150000000 :: int),
                 (Some (replicate 128 255), 1762150001000),
                 (Some (replicate 128 255), 1762150001001)]"
  have h: "(2::nat) < length ?ticks" by simp
  have m: "monitor ?ticks initialDetector = [True, False, True]"
    by (simp add: processAudio_def level_full clapThreshold_def clapCooldown_def
        initialDetector_def)
  have p: "snd (processAudio (Some (replicate 128 255)) 1762150000000 initialDetector)"
    by (simp add: processAudio_def level_full clapThreshold_def clapCooldown_def
        initialDetector_def)
  from C4_clap_iff_cooldown_exceeded [OF h, of initialDetector "Some (replicate 128 255)" 1762150000000]
    h m p
  show ?thesis by simp
qed

section \<open>Properties of the speech controls\<close>

lemma speak_cancels_and_queues:
  assumes "isSupported s" and "trim t \<noteq> []"
  shows "cancelCalls (speak (Some t) s) = Suc (cancelCalls s)"
    and "synthesisQueue (speak (Some t) s) =
           [\<lparr>utterText = t, utterLang = languageMap (languageProp s),
             utterRate = speechRate s, utterVolume = speechVolume s,
             utterVoice = selectedVoice s\<rparr>]"
  using assms by (simp_all add: speak_def Let_def synthesisCancel_def)

text \<open>
  Claim C10. When speech synthesis is not supported, or the text to speak (the argument,
  or the \<open>text\<close> prop when \<open>speak\<close> is called without one) is empty after trimming,
  \<open>speak\<close> returns the state as it is: \<open>cancel\<close> is not called, the queue of utterances
  is unchanged, and so are \<open>isSpeaking\<close> and \<open>isPaused\<close>.
\<close>

theorem C10_speak_degenerate_is_noop:
  assumes "\<not> isSupported s \<or> trim (case arg of None \<Rightarrow> textProp s | Some t \<Rightarrow> t) = []"
  shows "cancelCalls (speak arg s) = cancelCalls s
       \<and> synthesisQueue (speak arg s) = synthesisQueue s
       \<and> isSpeaking (speak arg s) = isSpeaking s
       \<and> isPaused (speak arg s) = isPaused s
       \<and> speak arg s = s"
  using assms by (auto simp: speak_def Let_def)

theorem C10_speak_degenerate_is_noop_witness:
  "trim ''   '' = []
   \<and> isSupported speakingTts
   \<and> speak (Some ''   '') speakingTts = speakingTts
   \<and> speak (Some ''EXIT 12B'') (speakingTts\<lparr>isSupported := False\<rparr>) =
       speakingTts\<lparr>isSupported := False\<rparr>
   \<and> speak None (speakingTts\<lparr>textProp := ''''\<rparr>) = speakingTts\<lparr>textProp := ''''\<rparr>"
proof -
  have t: "trim ''   '' = []" "trim '''' = []" by code_simp+
  have s: "isSupported speakingTts" by (simp add: speakingTts_def)
  have a: "\<not> isSupported speakingTts
           \<or> trim (case Some ''   '' of None \<Rightarrow> textProp speakingTts | Some t \<Rightarrow> t) = []"
    using t by simp
  have b: "\<not> isSupported (speakingTts\<lparr>isSupported := False\<rparr>)
           \<or> trim (case Some ''EXIT 12B'' of
                     None \<Rightarrow> textProp (speakingTts\<lparr>isSupported := False\<rparr>) | Some t \<Rightarrow> t) = []"
    by simp
  have c: "\<not> isSupported (speakingTts\<lparr>textProp := ''''\<rparr>)
           \<or> trim (case None of None \<Rightarrow> textProp (speakingTts\<lparr>textProp := ''''\<rparr>)
                     | Some t \<Rightarrow> t) = []"
    using t by simp
  from C10_speak_degenerate_is_noop [OF a] C10_speak_degenerate_is_noop [OF b]
    C10_speak_degenerate_is_noop [OF c] t s
  show ?thesis by simp
qed

end
